theory Spec2Isabelle
  imports Main "HOL-Library.Sublist"
begin

section \<open>Python values and exceptions\<close>

text \<open>
  The program is a single Python module, \<^verbatim>\<open>app.py\<close>. Exceptions are values: the class of
  the exception and the text that \<^verbatim>\<open>str(e)\<close> gives. The handlers of the module are of two
  kinds: a bare \<^verbatim>\<open>except:\<close> catches every exception, \<^verbatim>\<open>except Exception\<close> catches the
  instances of \<^verbatim>\<open>Exception\<close> only. The last three classes derive from \<^verbatim>\<open>BaseException\<close>
  directly (\<^verbatim>\<open>asyncio.CancelledError\<close>, \<^verbatim>\<open>KeyboardInterrupt\<close>, \<^verbatim>\<open>SystemExit\<close>) and pass
  through \<^verbatim>\<open>except Exception\<close>; \<open>OtherException\<close> stands for every other subclass of
  \<^verbatim>\<open>Exception\<close>.
\<close>

datatype exc_class =
  AttributeError | TypeError | KeyError | HTTPError | OtherException
  | CancelledError | KeyboardInterrupt | SystemExit

datatype exn = Exn (exn_class: exc_class) (exn_str: string)

fun derives_from_Exception :: "exc_class \<Rightarrow> bool" where
  "derives_from_Exception CancelledError = False"
| "derives_from_Exception KeyboardInterrupt = False"
| "derives_from_Exception SystemExit = False"
| "derives_from_Exception _ = True"

text \<open>\<^verbatim>\<open>isinstance(e, Exception)\<close>, the test that \<^verbatim>\<open>except Exception\<close> makes.\<close>

definition is_Exception :: "exn \<Rightarrow> bool" where
  "is_Exception e = derives_from_Exception (exn_class e)"

text \<open>
  Reading an attribute either raises or gives a value; an attribute that the object does not
  have raises \<^const>\<open>AttributeError\<close>. \<^verbatim>\<open>hasattr(obj, name)\<close> reads the attribute, answers
  \<^verbatim>\<open>False\<close> on \<^const>\<open>AttributeError\<close> and lets every other exception through.
\<close>

type_synonym 'a attr = "exn + 'a"

definition quoted :: "string \<Rightarrow> string" where
  "quoted s = [CHR 0x27] @ s @ [CHR 0x27]"

definition no_attr :: "string \<Rightarrow> 'a attr" where
  "no_attr name = Inl (Exn AttributeError (''object has no attribute '' @ quoted name))"

definition hasattr :: "'a attr \<Rightarrow> exn + bool" where
  "hasattr a =
     (case a of
        Inr _ \<Rightarrow> Inr True
      | Inl e \<Rightarrow> if exn_class e = AttributeError then Inr False else Inl e)"

section \<open>Events of one generation call\<close>

text \<open>
  An event is whatever the runner yields. The handler probes two attributes, \<^verbatim>\<open>text\<close> and
  \<^verbatim>\<open>content\<close>; \<^verbatim>\<open>content.parts\<close> is iterated and each part is probed for \<^verbatim>\<open>text\<close>. Text values
  are optional strings (\<^verbatim>\<open>None\<close> or a \<^verbatim>\<open>str\<close>), \<^verbatim>\<open>content\<close> and \<^verbatim>\<open>parts\<close> may be \<^verbatim>\<open>None\<close>.
\<close>

datatype part = Part (part_text: "string option attr")

datatype content = Content (parts: "part list option attr")

datatype event = Event (ev_text: "string option attr") (ev_content: "content option attr")

text \<open>Truth value of an optional string: \<^verbatim>\<open>None\<close> and \<^verbatim>\<open>""\<close> are false.\<close>

fun truthy :: "string option \<Rightarrow> bool" where
  "truthy None = False"
| "truthy (Some s) = (s \<noteq> [])"

text \<open>
  \<^verbatim>\<open>if hasattr(p, 'text'): final += p.text\<close>. The accumulator is a \<^verbatim>\<open>str\<close>; adding \<^verbatim>\<open>None\<close> to
  it raises \<^const>\<open>TypeError\<close>. The result is the new accumulator, or the exception raised.
\<close>

definition add_part :: "string \<Rightarrow> part \<Rightarrow> exn + string" where
  "add_part final p =
     (case hasattr (part_text p) of
        Inl e \<Rightarrow> Inl e
      | Inr h \<Rightarrow>
          if h then
            (case part_text p of
               Inl e \<Rightarrow> Inl e
             | Inr None \<Rightarrow> Inl (Exn TypeError ''can only concatenate str (not \"NoneType\") to str'')
             | Inr (Some t) \<Rightarrow> Inr (final @ t))
          else Inr final)"

text \<open>
  \<^verbatim>\<open>for p in event.content.parts: ...\<close>. The loop assigns to \<^verbatim>\<open>final\<close> part by part, so when a
  part raises, the accumulator keeps what the earlier parts added. The result is the
  accumulator when the loop stops and the exception that stopped it, if any.
\<close>

fun for_parts :: "string \<Rightarrow> part list \<Rightarrow> string \<times> exn option" where
  "for_parts final [] = (final, None)"
| "for_parts final (p # ps) =
     (case add_part final p of
        Inl e \<Rightarrow> (final, Some e)
      | Inr final' \<Rightarrow> for_parts final' ps)"

text \<open>The \<^verbatim>\<open>elif hasattr(event, 'content')\<close> branch.\<close>

definition content_branch :: "string \<Rightarrow> event \<Rightarrow> string \<times> exn option" where
  "content_branch final ev =
     (case hasattr (ev_content ev) of
        Inl e \<Rightarrow> (final, Some e)
      | Inr h \<Rightarrow>
          if h then
            (case ev_content ev of
               Inl e \<Rightarrow> (final, Some e)
             | Inr None \<Rightarrow>
                 (final, Some (Exn AttributeError
                    (quoted ''NoneType'' @ '' object has no attribute '' @ quoted ''parts'')))
             | Inr (Some c) \<Rightarrow>
                 (case parts c of
                    Inl e \<Rightarrow> (final, Some e)
                  | Inr None \<Rightarrow>
                      (final, Some (Exn TypeError
                         (quoted ''NoneType'' @ '' object is not iterable'')))
                  | Inr (Some ps) \<Rightarrow> for_parts final ps))
          else (final, None))"

text \<open>
  The body of the inner \<^verbatim>\<open>try\<close> of \<^verbatim>\<open>chat\<close>, for one event: the accumulator after it, and the
  exception it raised, if any.
\<close>

definition inspect_event :: "string \<Rightarrow> event \<Rightarrow> string \<times> exn option" where
  "inspect_event final ev =
     (case hasattr (ev_text ev) of
        Inl e \<Rightarrow> (final, Some e)
      | Inr h \<Rightarrow>
          if h then
            (case ev_text ev of
               Inl e \<Rightarrow> (final, Some e)
             | Inr None \<Rightarrow> content_branch final ev
             | Inr (Some t) \<Rightarrow>
                 if truthy (Some t) then (t, None) else content_branch final ev)
          else content_branch final ev)"

text \<open>
  What \<^verbatim>\<open>runner.run_async(...)\<close> does when it is iterated: it yields an event and goes on,
  ends, or raises. A value of this type is a finite stream.
\<close>

datatype run = StopAsyncIteration | Yield event run | Raise exn

text \<open>
  The \<^verbatim>\<open>async for\<close> loop with its two handlers: the inner bare \<^verbatim>\<open>except: continue\<close> drops the
  exception of an event, the outer \<^verbatim>\<open>except Exception as e\<close> receives what the stream raises.
\<close>

fun event_loop :: "string \<Rightarrow> run \<Rightarrow> exn + string" where
  "event_loop final StopAsyncIteration = Inr final"
| "event_loop final (Yield ev r) = event_loop (fst (inspect_event final ev)) r"
| "event_loop final (Raise e) = Inl e"

text \<open>The JSON object that \<^verbatim>\<open>chat\<close> returns: \<^verbatim>\<open>{"response": ...}\<close> or \<^verbatim>\<open>{"error": ...}\<close>.\<close>

datatype reply = Response string | Error string

text \<open>
  The last lines of \<^verbatim>\<open>chat\<close>, from \<^verbatim>\<open>final = ""\<close> on. The outer handler is
  \<^verbatim>\<open>except Exception as e\<close>: what the stream raises becomes the error reply when it is an
  instance of \<^verbatim>\<open>Exception\<close>, and leaves the handler otherwise.
\<close>

definition aggregate_reply :: "run \<Rightarrow> exn + reply" where
  "aggregate_reply r =
     (case event_loop [] r of
        Inl e \<Rightarrow> if is_Exception e then Inr (Error (exn_str e)) else Inl e
      | Inr final \<Rightarrow> Inr (Response final))"

section \<open>System prompt and user profile\<close>

text \<open>
  \<^verbatim>\<open>User.__init__\<close> reads three keys of the stored profile; the first two must be there
  (\<^const>\<open>KeyError\<close> otherwise), \<^verbatim>\<open>knowledge_level\<close> falls back to \<^verbatim>\<open>'Beginner'\<close> when the key
  is absent.
\<close>

record user =
  user_id :: string
  username :: string
  knowledge_level :: string

definition User_init :: "(string \<rightharpoonup> string) \<Rightarrow> exn + user" where
  "User_init user_dict =
     (case user_dict ''_id'' of
        None \<Rightarrow> Inl (Exn KeyError (quoted ''_id''))
      | Some i \<Rightarrow>
          (case user_dict ''username'' of
             None \<Rightarrow> Inl (Exn KeyError (quoted ''username''))
           | Some u \<Rightarrow>
               Inr \<lparr>user_id = i, username = u,
                    knowledge_level =
                      (case user_dict ''knowledge_level'' of
                         None \<Rightarrow> ''Beginner''
                       | Some l \<Rightarrow> l)\<rparr>))"

definition base_prompt :: string where
  "base_prompt =
     ''You are '' @ quoted ''Rotom-Coach'' @ '', a Grandmaster Pokemon Coach.\<newline>'' @
     ''    **Directives:**\<newline>'' @
     ''    1. Ask for Format if missing.\<newline>'' @
     ''    2. Use `get_usage_stats` for data.\<newline>'' @
     ''    3. OUTPUT TEAMS IN SHOWDOWN IMPORTABLE FORMAT INSIDE CODE BLOCKS (```).\<newline>'' @
     ''    ''"

definition get_system_prompt :: "string \<Rightarrow> string" where
  "get_system_prompt level =
     (if level = ''Beginner'' then base_prompt @ ''Explain terms (STAB, EVs). Be educational.''
      else if level = ''Expert'' then base_prompt @ ''Be concise. Focus on calcs and win-cons.''
      else base_prompt)"

section \<open>Runner cache\<close>

text \<open>
  The objects that \<^verbatim>\<open>get_runner\<close> builds, as records of the arguments they are built from.
  A runner is a Python object, so it has an identity: \<open>runner_ident\<close> is the number of
  runners built before it, and two runners built by two calls differ in it. The
  constructors are those of a process in which the import of the ADK classes at the top of
  the module succeeded; they do no input or output and return.
\<close>

record http_retry_options =
  attempts :: nat

record gemini =
  gemini_model :: string
  retry_options :: http_retry_options

datatype tool = Get_usage_stats | Get_sample_teams

record llm_agent =
  agent_name :: string
  agent_model :: gemini
  instruction :: string
  agent_tools :: "tool list"

record in_memory_runner =
  runner_ident :: nat
  runner_agent :: llm_agent
  runner_app_name :: string

definition APP_NAME :: string where
  "APP_NAME = ''agents''"

text \<open>
  The module-level state: the two globals of the module, the standard output, and three
  counters that number the objects built and the calls made to the engine.
\<close>

record state =
  RUNNER_CACHE :: "string \<rightharpoonup> in_memory_runner"
  INITIALIZED_SESSIONS :: "string set"
  runners_built :: nat
  create_session_calls :: nat
  run_async_calls :: nat
  stdout :: "string list"

definition get_runner :: "string \<Rightarrow> string \<Rightarrow> state \<Rightarrow> in_memory_runner \<times> state" where
  "get_runner session_id user_level s =
     (case RUNNER_CACHE s session_id of
        Some cached \<Rightarrow> (cached, s)
      | None \<Rightarrow>
          (let retry = \<lparr>attempts = 3\<rparr>;
               model = \<lparr>gemini_model = ''models/gemini-2.5-pro'', retry_options = retry\<rparr>;
               agent = \<lparr>agent_name = ''coach'', agent_model = model,
                        instruction = get_system_prompt user_level,
                        agent_tools = [Get_usage_stats, Get_sample_teams]\<rparr>;
               runner = \<lparr>runner_ident = runners_built s, runner_agent = agent,
                         runner_app_name = APP_NAME\<rparr>
           in (runner,
               s\<lparr>RUNNER_CACHE := (RUNNER_CACHE s)(session_id \<mapsto> runner),
                 runners_built := Suc (runners_built s)\<rparr>)))"

section \<open>The chat handler\<close>

text \<open>
  JSON values, as \<^verbatim>\<open>request.json\<close> and \<^verbatim>\<open>response.json()\<close> give them: an object is the list of
  its items in order. Numbers are integers here; no function of the module computes with a
  number.
\<close>

datatype json =
  JNull | JBool bool | JNum int | JStr string | JArr "json list" | JObj "(string \<times> json) list"

text \<open>
  The message handed to the engine: \<^verbatim>\<open>types.Content(role="user", parts=[types.Part(text=msg)])\<close>,
  or \<^verbatim>\<open>msg\<close> itself when that constructor raises.
\<close>

datatype new_message = User_content json | Raw_message json

text \<open>
  What the engine (the ADK library) does is not part of the module; it is a parameter.
  \<open>create_session n\<close> is the outcome of the \<open>n\<close>-th call of \<^verbatim>\<open>create_session\<close> in the process
  (\<open>None\<close>: it returned, \<open>Some e\<close>: it raised \<open>e\<close>), \<open>run_async n\<close> the stream that the \<open>n\<close>-th
  call of \<^verbatim>\<open>run_async\<close> gives, both as functions of the arguments of the call, and
  \<open>Content_init\<close> says whether the content constructor raises.
\<close>

record engine =
  create_session :: "nat \<Rightarrow> nat \<Rightarrow> string \<Rightarrow> string \<Rightarrow> string \<Rightarrow> exn option"
  run_async :: "nat \<Rightarrow> nat \<Rightarrow> string \<Rightarrow> string \<Rightarrow> new_message \<Rightarrow> run"
  Content_init :: "json \<Rightarrow> exn option"

text \<open>
  The block of \<^verbatim>\<open>chat\<close> between \<^verbatim>\<open>FIX START\<close> and \<^verbatim>\<open>FIX END\<close>: the exception that leaves the
  block, if any, and the state after it. The handler is \<^verbatim>\<open>except Exception as e\<close>: an
  exception of \<^verbatim>\<open>create_session\<close> that is not an instance of \<^verbatim>\<open>Exception\<close> leaves the block,
  and the key has not been added then.
\<close>

definition ensure_session ::
  "engine \<Rightarrow> in_memory_runner \<Rightarrow> string \<Rightarrow> state \<Rightarrow> exn option \<times> state" where
  "ensure_session E runner session_id s =
     (if session_id \<notin> INITIALIZED_SESSIONS s then
        (let s1 = s\<lparr>create_session_calls := Suc (create_session_calls s)\<rparr> in
         case create_session E (create_session_calls s) (runner_ident runner)
                session_id ''web_user'' APP_NAME of
           None \<Rightarrow>
             (None, s1\<lparr>INITIALIZED_SESSIONS := insert session_id (INITIALIZED_SESSIONS s1)\<rparr>)
         | Some e \<Rightarrow>
             if is_Exception e then
               (None, s1\<lparr>INITIALIZED_SESSIONS := insert session_id (INITIALIZED_SESSIONS s1),
                          stdout := stdout s1 @ [''Session init info: '' @ exn_str e]\<rparr>)
             else (Some e, s1))
      else (None, s))"

text \<open>
  \<^verbatim>\<open>chat\<close>, from the message of the request on. The result is the JSON reply, or the
  exception that leaves the handler, and the state after the request.
\<close>

definition chat :: "engine \<Rightarrow> user \<Rightarrow> json \<Rightarrow> state \<Rightarrow> (exn + reply) \<times> state" where
  "chat E current_user msg s =
     (let session_id = ''session_'' @ user_id current_user;
          (runner, s1) = get_runner session_id (knowledge_level current_user) s;
          (raised, s2) = ensure_session E runner session_id s1
      in case raised of
           Some e \<Rightarrow> (Inl e, s2)
         | None \<Rightarrow>
             (let content = (case Content_init E msg of
                               None \<Rightarrow> User_content msg
                             | Some _ \<Rightarrow> Raw_message msg);
                  r = run_async E (run_async_calls s2) (runner_ident runner)
                        ''web_user'' session_id content
              in (aggregate_reply r,
                  s2\<lparr>run_async_calls := Suc (run_async_calls s2)\<rparr>)))"

section \<open>Tool functions\<close>

text \<open>
  A \<^verbatim>\<open>str\<close> is a list of characters, each a code point below 256. On these, \<^verbatim>\<open>str.lower\<close> maps
  \<^verbatim>\<open>A\<close>--\<^verbatim>\<open>Z\<close> and the capital letters of Latin-1 (192--214 and 216--222) to the letter 32
  places on, \<^verbatim>\<open>str.strip\<close> removes the white space of \<^verbatim>\<open>str.isspace\<close> from
  both ends, and \<^verbatim>\<open>replace(" ", "")\<close> removes every space.
\<close>

definition lower_char :: "char \<Rightarrow> char" where
  "lower_char c =
     (let n = (of_char c :: nat)
      in if (65 \<le> n \<and> n \<le> 90) \<or> (192 \<le> n \<and> n \<le> 214) \<or> (216 \<le> n \<and> n \<le> 222)
         then char_of (n + 32) else c)"

definition lower :: "string \<Rightarrow> string" where
  "lower s = map lower_char s"

definition isspace :: "char \<Rightarrow> bool" where
  "isspace c =
     (let n = (of_char c :: nat)
      in (9 \<le> n \<and> n \<le> 13) \<or> (28 \<le> n \<and> n \<le> 32) \<or> n = 133 \<or> n = 160)"

definition strip :: "string \<Rightarrow> string" where
  "strip s = rev (dropWhile isspace (rev (dropWhile isspace s)))"

definition remove_spaces :: "string \<Rightarrow> string" where
  "remove_spaces s = filter (\<lambda>c. c \<noteq> CHR '' '') s"

text \<open>\<^verbatim>\<open>format.lower().strip().replace(" ", "")\<close>, the first line of both tools.\<close>

definition normalize_format :: "string \<Rightarrow> string" where
  "normalize_format fmt = remove_spaces (strip (lower fmt))"

text \<open>
  The libraries the tools call are parameters: \<open>requests_get url\<close> raises or gives a
  response with its status code; \<open>response_json\<close> raises or gives the parsed body;
  \<open>json_dumps\<close> prints a JSON value.
\<close>

record response =
  status_code :: nat
  response_json :: "exn + json"

text \<open>
  \<^verbatim>\<open>response.raise_for_status()\<close> of the \<^verbatim>\<open>requests\<close> library: it raises \<^verbatim>\<open>HTTPError\<close> for a
  status from 400 to 599 (client and server errors) and returns for every other status.
\<close>

definition raise_for_status :: "response \<Rightarrow> exn option" where
  "raise_for_status response =
     (if 400 \<le> status_code response \<and> status_code response < 500
      then Some (Exn HTTPError ''Client Error'')
      else if 500 \<le> status_code response \<and> status_code response < 600
      then Some (Exn HTTPError ''Server Error'')
      else None)"

record libs =
  requests_get :: "string \<Rightarrow> exn + response"
  json_dumps :: "json \<Rightarrow> string"

text \<open>\<^verbatim>\<open>list(data.keys())\<close>: only a dict has \<^verbatim>\<open>keys\<close>.\<close>

fun keys :: "json \<Rightarrow> exn + string list" where
  "keys (JObj items) = Inr (map fst items)"
| "keys _ = Inl (Exn AttributeError (''object has no attribute '' @ quoted ''keys''))"

text \<open>\<^verbatim>\<open>sep.join(xs)\<close>.\<close>

fun join :: "string \<Rightarrow> string list \<Rightarrow> string" where
  "join sep [] = []"
| "join sep [x] = x"
| "join sep (x # y # ys) = x @ sep @ join sep (y # ys)"

text \<open>\<^verbatim>\<open>value[:2]\<close>: a list and a string can be sliced, nothing else.\<close>

fun slice2 :: "json \<Rightarrow> exn + json" where
  "slice2 (JArr xs) = Inr (JArr (take 2 xs))"
| "slice2 (JStr s) = Inr (JStr (take 2 s))"
| "slice2 _ = Inl (Exn TypeError ''object is not subscriptable'')"

text \<open>The canonical identifier of the special case of \<^verbatim>\<open>get_usage_stats\<close>.\<close>

definition usage_clean_format :: "string \<Rightarrow> string" where
  "usage_clean_format fmt =
     (let clean_format = normalize_format fmt
      in if sublist ''gen9ou'' clean_format then ''gen9ou'' else clean_format)"

definition usage_url :: "string \<Rightarrow> string" where
  "usage_url clean_format = ''https://data.pkmn.cc/stats/'' @ clean_format @ ''.json''"

text \<open>The body of the \<^verbatim>\<open>try\<close> of \<^verbatim>\<open>get_usage_stats\<close>: what it returns, or what it raises.\<close>

definition usage_try :: "libs \<Rightarrow> string \<Rightarrow> exn + string" where
  "usage_try L url =
     (case requests_get L url of
        Inl e \<Rightarrow> Inl e
      | Inr response \<Rightarrow>
          (case raise_for_status response of
             Some e \<Rightarrow> Inl e
           | None \<Rightarrow>
               (case response_json response of
                  Inl e \<Rightarrow> Inl e
                | Inr data \<Rightarrow>
                    (case keys data of
                       Inl e \<Rightarrow> Inl e
                     | Inr ks \<Rightarrow> Inr (''Top 20 Usage: '' @ join '', '' (take 20 ks))))))"

definition get_usage_stats :: "libs \<Rightarrow> string \<Rightarrow> exn + string" where
  "get_usage_stats L fmt =
     (let clean_format = usage_clean_format fmt;
          url = usage_url clean_format
      in case usage_try L url of
           Inr s \<Rightarrow> Inr s
         | Inl _ \<Rightarrow> Inr (''Stats not found for '' @ clean_format @ ''.''))"

definition teams_url :: "string \<Rightarrow> string" where
  "teams_url clean_format = ''https://data.pkmn.cc/teams/'' @ clean_format @ ''.json''"

text \<open>The body of the \<^verbatim>\<open>try\<close> of \<^verbatim>\<open>get_sample_teams\<close>.\<close>

definition teams_try :: "libs \<Rightarrow> string \<Rightarrow> exn + string" where
  "teams_try L url =
     (case requests_get L url of
        Inl e \<Rightarrow> Inl e
      | Inr response \<Rightarrow>
          (case raise_for_status response of
             Some e \<Rightarrow> Inl e
           | None \<Rightarrow>
               (case response_json response of
                  Inl e \<Rightarrow> Inl e
                | Inr data \<Rightarrow>
                    (case slice2 data of
                       Inl e \<Rightarrow> Inl e
                     | Inr first_two \<Rightarrow> Inr (''Sample Teams: '' @ json_dumps L first_two)))))"

definition get_sample_teams :: "libs \<Rightarrow> string \<Rightarrow> exn + string" where
  "get_sample_teams L fmt =
     (let clean_format = normalize_format fmt;
          url = teams_url clean_format
      in case teams_try L url of
           Inr s \<Rightarrow> Inr s
         | Inl _ \<Rightarrow> Inr (''No samples for '' @ clean_format @ ''.''))"

section \<open>Notions for the statements\<close>

text \<open>A stream that yields the given events and then goes on as \<open>r\<close>.\<close>

fun yields :: "event list \<Rightarrow> run \<Rightarrow> run" where
  "yields [] r = r"
| "yields (ev # evs) r = Yield ev (yields evs r)"

text \<open>The events a stream yields, and the exception that ends it, if one does.\<close>

fun events_of :: "run \<Rightarrow> event list" where
  "events_of StopAsyncIteration = []"
| "events_of (Yield ev r) = ev # events_of r"
| "events_of (Raise e) = []"

fun raised_by :: "run \<Rightarrow> exn option" where
  "raised_by StopAsyncIteration = None"
| "raised_by (Yield ev r) = raised_by r"
| "raised_by (Raise e) = Some e"

text \<open>The accumulator after a list of events, each inspected in turn.\<close>

definition aggregate_from :: "string \<Rightarrow> event list \<Rightarrow> string" where
  "aggregate_from final evs = foldl (\<lambda>acc ev. fst (inspect_event acc ev)) final evs"

text \<open>
  An event that carries only a structured-content field whose parts all bear text, and an
  event with a plain-text field (and any \<^verbatim>\<open>content\<close> attribute, or none).
\<close>

definition structured_event :: "string list \<Rightarrow> event" where
  "structured_event texts =
     Event (no_attr ''text'') (Inr (Some (Content (Inr (Some (map (\<lambda>t. Part (Inr (Some t))) texts))))))"

definition plain_text_event :: "string \<Rightarrow> content option attr \<Rightarrow> event" where
  "plain_text_event t c = Event (Inr (Some t)) c"

text \<open>
  The parts that the loop of an event runs over, whether a part makes the loop raise, the
  text a part adds, and the texts added before the first part that raises.
\<close>

definition event_parts :: "event \<Rightarrow> part list" where
  "event_parts ev =
     (case ev_content ev of
        Inr (Some c) \<Rightarrow> (case parts c of Inr (Some ps) \<Rightarrow> ps | _ \<Rightarrow> [])
      | _ \<Rightarrow> [])"

definition part_faults :: "part \<Rightarrow> bool" where
  "part_faults p =
     (case part_text p of
        Inl e \<Rightarrow> exn_class e \<noteq> AttributeError
      | Inr None \<Rightarrow> True
      | Inr (Some t) \<Rightarrow> False)"

definition part_str :: "part \<Rightarrow> string" where
  "part_str p = (case part_text p of Inr (Some t) \<Rightarrow> t | _ \<Rightarrow> [])"

definition texts_before_fault :: "part list \<Rightarrow> string" where
  "texts_before_fault ps = concat (map part_str (takeWhile (\<lambda>p. \<not> part_faults p) ps))"

definition kept_on_fault :: "event \<Rightarrow> string" where
  "kept_on_fault ev =
     (case hasattr (ev_text ev) of
        Inl e \<Rightarrow> []
      | Inr h \<Rightarrow> texts_before_fault (event_parts ev))"

text \<open>
  The outbound call of a tool fails, in the words of the specification: the request raises
  (network error), the status is not one of 200 to 299, or the body does not parse
  (malformed JSON).
\<close>

definition is_2xx :: "nat \<Rightarrow> bool" where
  "is_2xx status = (200 \<le> status \<and> status < 300)"

definition outbound_fails :: "libs \<Rightarrow> string \<Rightarrow> bool" where
  "outbound_fails L url =
     (case requests_get L url of
        Inl e \<Rightarrow> True
      | Inr response \<Rightarrow>
          (if is_2xx (status_code response) then isl (response_json response) else True))"

text \<open>
  The outbound call of a tool raises: the request raises, the status is one for which
  \<^const>\<open>raise_for_status\<close> raises (400 to 599), or the body does not parse.
\<close>

definition is_error_status :: "nat \<Rightarrow> bool" where
  "is_error_status status = (400 \<le> status \<and> status < 600)"

definition outbound_raises :: "libs \<Rightarrow> string \<Rightarrow> bool" where
  "outbound_raises L url =
     (case requests_get L url of
        Inl e \<Rightarrow> True
      | Inr response \<Rightarrow>
          (if is_error_status (status_code response) then True
           else isl (response_json response)))"



text \<open>A state with nothing cached, no session initialised and nothing printed.\<close>

definition fresh_state :: state where
  "fresh_state =
     \<lparr>RUNNER_CACHE = Map.empty, INITIALIZED_SESSIONS = {}, runners_built = 0,
      create_session_calls = 0, run_async_calls = 0, stdout = []\<rparr>"

text \<open>
  The values that one call of \<^verbatim>\<open>chat\<close> works with: its session key, the runner and the
  state that \<^const>\<open>get_runner\<close> gives, the message it hands over, and the stream that its
  generation call gives.
\<close>

definition session_key :: "user \<Rightarrow> string" where
  "session_key u = ''session_'' @ user_id u"

definition turn_runner :: "user \<Rightarrow> state \<Rightarrow> in_memory_runner \<times> state" where
  "turn_runner u s = get_runner (session_key u) (knowledge_level u) s"

definition turn_content :: "engine \<Rightarrow> json \<Rightarrow> new_message" where
  "turn_content E msg =
     (case Content_init E msg of
        None \<Rightarrow> User_content msg
      | Some e \<Rightarrow> Raw_message msg)"

definition turn_stream :: "engine \<Rightarrow> user \<Rightarrow> json \<Rightarrow> state \<Rightarrow> run" where
  "turn_stream E u msg s =
     run_async E (run_async_calls s) (runner_ident (fst (turn_runner u s))) ''web_user''
       (session_key u) (turn_content E msg)"

text \<open>The session block as \<^verbatim>\<open>chat\<close> runs it.\<close>

definition turn_session :: "engine \<Rightarrow> user \<Rightarrow> state \<Rightarrow> exn option \<times> state" where
  "turn_session E u s =
     ensure_session E (fst (turn_runner u s)) (session_key u) (snd (turn_runner u s))"

text \<open>The address that \<^verbatim>\<open>get_usage_stats\<close> requests for the canonical identifier.\<close>

definition gen9ou_stats_url :: string where
  "gen9ou_stats_url = ''https://data.pkmn.cc/stats/gen9ou.json''"

section \<open>The event loop\<close>

lemma aggregate_from_Nil: "aggregate_from final [] = final"
  by (simp add: aggregate_from_def)

lemma aggregate_from_Cons:
  "aggregate_from final (ev # evs) = aggregate_from (fst (inspect_event final ev)) evs"
  by (simp add: aggregate_from_def)

lemma event_loop_yields:
  "event_loop final (yields evs r) = event_loop (aggregate_from final evs) r"
  by (induction evs arbitrary: final) (simp_all add: aggregate_from_def)

text \<open>Every stream is a list of events followed by its end or by an exception.\<close>

lemma run_shape:
  "r = yields (events_of r)
         (case raised_by r of None \<Rightarrow> StopAsyncIteration | Some e \<Rightarrow> Raise e)"
  by (induction r) simp_all

lemma event_loop_run:
  "event_loop final r =
     (case raised_by r of
        Some e \<Rightarrow> Inl e
      | None \<Rightarrow> Inr (aggregate_from final (events_of r)))"
  by (induction r arbitrary: final)
    (simp_all add: aggregate_from_Nil aggregate_from_Cons split: option.splits)

lemma hasattr_no_attr: "hasattr (no_attr name) = Inr False"
  by (simp add: hasattr_def no_attr_def)

lemma hasattr_Inr: "hasattr (Inr v) = Inr True"
  by (simp add: hasattr_def)

lemma for_parts_texts:
  "for_parts final (map (\<lambda>t. Part (Inr (Some t))) texts) = (final @ concat texts, None)"
  by (induction texts arbitrary: final) (simp_all add: add_part_def hasattr_Inr)

lemma inspect_structured:
  "inspect_event final (structured_event texts) = (final @ concat texts, None)"
  by (simp add: inspect_event_def structured_event_def content_branch_def
      hasattr_no_attr hasattr_Inr for_parts_texts)

lemma aggregate_structured:
  "aggregate_from final (map structured_event tss) = final @ concat (concat tss)"
  by (induction tss arbitrary: final) (simp_all add: aggregate_from_def inspect_structured)

lemma inspect_text:
  "ev_text ev = Inr (Some t) \<Longrightarrow> t \<noteq> [] \<Longrightarrow> inspect_event final ev = (t, None)"
  by (simp add: inspect_event_def hasattr_Inr)

text \<open>
  Claim C1. Whenever an event exposes a non-empty plain-text field, the accumulator becomes
  that text, whatever it held before: the event alone gives \<open>(t, None)\<close>, the loop goes on
  from \<open>t\<close>, and a list of events that ends with such an event aggregates to \<open>t\<close>. The stream
  of a structured event with the part \<^verbatim>\<open>draft\<close> followed by a plain-text event
  \<^verbatim>\<open>final answer\<close> aggregates to \<^verbatim>\<open>final answer\<close>.
\<close>

theorem plain_text_replaces_accumulator:
  "(ev_text ev = Inr (Some t) \<longrightarrow> t \<noteq> [] \<longrightarrow>
      inspect_event final ev = (t, None)
    \<and> event_loop final (Yield ev r) = event_loop t r
    \<and> aggregate_from final (evs @ [ev]) = t)
   \<and> aggregate_reply
        (yields [structured_event [''draft''], plain_text_event ''final answer'' c]
           StopAsyncIteration)
      = Inr (Response ''final answer'')"
proof -
  have general: "inspect_event final ev = (t, None)
      \<and> event_loop final (Yield ev r) = event_loop t r
      \<and> aggregate_from final (evs @ [ev]) = t"
    if "ev_text ev = Inr (Some t)" and "t \<noteq> []"
  proof -
    have "inspect_event acc ev = (t, None)" for acc
      using that by (rule inspect_text)
    then show ?thesis by (simp add: aggregate_from_def)
  qed
  have "inspect_event acc (plain_text_event ''final answer'' c) = (''final answer'', None)"
    for acc
    by (rule inspect_text) (simp_all add: plain_text_event_def)
  then have example: "aggregate_reply
        (yields [structured_event [''draft''], plain_text_event ''final answer'' c]
           StopAsyncIteration)
      = Inr (Response ''final answer'')"
    by (simp add: aggregate_reply_def)
  show ?thesis using general example by blast
qed

theorem plain_text_replaces_accumulator_witness:
  "ev_text (plain_text_event ''final answer'' (no_attr ''content'')) = Inr (Some ''final answer'')
   \<and> ''final answer'' \<noteq> []
   \<and> inspect_event ''draft'' (plain_text_event ''final answer'' (no_attr ''content''))
       = (''final answer'', None)"
proof -
  have h: "ev_text (plain_text_event ''final answer'' (no_attr ''content''))
      = Inr (Some ''final answer'')"
    by (simp add: plain_text_event_def)
  show ?thesis
    using h plain_text_replaces_accumulator
      [of "plain_text_event ''final answer'' (no_attr ''content'')" "''final answer''" "''draft''"]
    by simp
qed

text \<open>
  Claim C2. For every finite sequence of events that carry only a structured-content field
  whose parts all bear text, the reply is the concatenation of all the texts in arrival
  order; the events \<^verbatim>\<open>Hello, \<close> and \<^verbatim>\<open>coach!\<close> give \<^verbatim>\<open>Hello, coach!\<close>, and no event at all
  gives the empty string.
\<close>

theorem structured_parts_concatenated:
  "aggregate_reply (yields (map structured_event tss) StopAsyncIteration)
     = Inr (Response (concat (concat tss)))
   \<and> aggregate_reply
        (yields [structured_event [''Hello, ''], structured_event [''coach!'']]
           StopAsyncIteration)
      = Inr (Response ''Hello, coach!'')
   \<and> aggregate_reply (yields [] StopAsyncIteration) = Inr (Response [])"
proof -
  have general: "aggregate_reply (yields (map structured_event xss) StopAsyncIteration)
      = Inr (Response (concat (concat xss)))" for xss
    by (simp add: aggregate_reply_def event_loop_yields aggregate_structured)
  have "aggregate_reply
      (yields (map structured_event [[''Hello, ''], [''coach!'']]) StopAsyncIteration)
      = Inr (Response (concat (concat [[''Hello, ''], [''coach!'']])))"
    by (rule general)
  then have hello: "aggregate_reply
      (yields [structured_event [''Hello, ''], structured_event [''coach!'']]
         StopAsyncIteration)
      = Inr (Response ''Hello, coach!'')"
    by simp
  have none: "aggregate_reply (yields [] StopAsyncIteration) = Inr (Response [])"
    by (simp add: aggregate_reply_def)
  show ?thesis using general hello none by blast
qed

subsection \<open>Events that raise\<close>

lemma add_part_faults: "part_faults p \<Longrightarrow> isl (add_part final p)"
  by (auto simp: part_faults_def add_part_def hasattr_def split: sum.splits option.splits)

lemma add_part_ok: "\<not> part_faults p \<Longrightarrow> add_part final p = Inr (final @ part_str p)"
  by (auto simp: part_faults_def add_part_def hasattr_def part_str_def
      split: sum.splits option.splits)

lemma for_parts_fst: "fst (for_parts final ps) = final @ texts_before_fault ps"
proof (induction ps arbitrary: final)
  case Nil
  show ?case by (simp add: texts_before_fault_def)
next
  case (Cons p ps)
  show ?case
  proof (cases "part_faults p")
    case True
    then obtain e where "add_part final p = Inl e"
      using add_part_faults [of p final] by (cases "add_part final p") auto
    with True show ?thesis by (simp add: texts_before_fault_def)
  next
    case False
    then have "add_part final p = Inr (final @ part_str p)"
      by (rule add_part_ok)
    with False Cons.IH [of "final @ part_str p"] show ?thesis
      by (simp add: texts_before_fault_def)
  qed
qed

lemma content_branch_fst:
  "fst (content_branch final ev) = final @ texts_before_fault (event_parts ev)"
  by (auto simp: content_branch_def event_parts_def for_parts_fst hasattr_def
      texts_before_fault_def split: sum.splits option.splits)

lemma inspect_event_fault:
  assumes "snd (inspect_event final ev) = Some e"
  shows "fst (inspect_event final ev) = final @ kept_on_fault ev"
  using assms
  by (auto simp: inspect_event_def kept_on_fault_def content_branch_fst hasattr_def
      split: sum.splits option.splits if_splits)

lemma kept_on_fault_no_parts: "event_parts ev = [] \<Longrightarrow> kept_on_fault ev = []"
  by (simp add: kept_on_fault_def texts_before_fault_def split: sum.splits)

text \<open>
  Claim C3 as it is written says that an event whose inspection raises leaves the
  accumulator exactly as it was. It does not when the exception comes from a part that is
  not the first: here the second part has \<^verbatim>\<open>text = None\<close>, the inspection raises
  \<^const>\<open>TypeError\<close>, and the text of the first part stays in the accumulator.
\<close>

theorem faulting_event_changes_accumulator:
  "snd (inspect_event ''kept''
          (Event (no_attr ''text'')
             (Inr (Some (Content (Inr (Some
                [Part (Inr (Some ''Let me check.'')), Part (Inr None)])))))))
     = Some (Exn TypeError ''can only concatenate str (not \"NoneType\") to str'')
   \<and> fst (inspect_event ''kept''
          (Event (no_attr ''text'')
             (Inr (Some (Content (Inr (Some
                [Part (Inr (Some ''Let me check.'')), Part (Inr None)])))))))
     = ''keptLet me check.''"
  by (simp add: inspect_event_def content_branch_def hasattr_no_attr hasattr_Inr add_part_def)

text \<open>
  Claim C3, amended. An exception raised while one event is inspected is swallowed: the
  loop goes on with the next event, and a stream that ends always gives a \<open>Response\<close>,
  whatever its events raise. The accumulator after such an event is the accumulator before
  it followed by the texts of the parts that come before the part that raised (nothing at
  all when the exception was raised before the loop over the parts).
\<close>

theorem event_fault_swallowed:
  "(snd (inspect_event final ev) = Some e \<longrightarrow>
      fst (inspect_event final ev) = final @ kept_on_fault ev
    \<and> event_loop final (Yield ev r) = event_loop (final @ kept_on_fault ev) r)
   \<and> (\<exists>reply_text. aggregate_reply (yields evs StopAsyncIteration) = Inr (Response reply_text))"
proof -
  have kept: "fst (inspect_event final ev) = final @ kept_on_fault ev
      \<and> event_loop final (Yield ev r) = event_loop (final @ kept_on_fault ev) r"
    if "snd (inspect_event final ev) = Some e"
  proof -
    from that have "fst (inspect_event final ev) = final @ kept_on_fault ev"
      by (rule inspect_event_fault)
    then show ?thesis by simp
  qed
  have "event_loop [] (yields evs StopAsyncIteration) = Inr (aggregate_from [] evs)"
    by (simp add: event_loop_yields)
  then have ends: "\<exists>reply_text.
      aggregate_reply (yields evs StopAsyncIteration) = Inr (Response reply_text)"
    by (simp add: aggregate_reply_def)
  show ?thesis using kept ends by blast
qed

theorem event_fault_swallowed_witness:
  "snd (inspect_event ''so far''
          (Event (no_attr ''text'')
             (Inr (Some (Content (Inr (Some
                [Part (Inr (Some ''a'')), Part (Inr None), Part (Inr (Some ''b''))])))))))
     = Some (Exn TypeError ''can only concatenate str (not \"NoneType\") to str'')
   \<and> event_loop ''so far''
        (Yield (Event (no_attr ''text'')
             (Inr (Some (Content (Inr (Some
                [Part (Inr (Some ''a'')), Part (Inr None), Part (Inr (Some ''b''))]))))))
           (Yield (structured_event [''c'']) StopAsyncIteration))
     = Inr ''so farac''"
proof -
  let ?ev = "Event (no_attr ''text'')
             (Inr (Some (Content (Inr (Some
                [Part (Inr (Some ''a'')), Part (Inr None), Part (Inr (Some ''b''))])))))"
  have h: "snd (inspect_event ''so far'' ?ev)
      = Some (Exn TypeError ''can only concatenate str (not \"NoneType\") to str'')"
    by (simp add: inspect_event_def content_branch_def hasattr_no_attr hasattr_Inr add_part_def)
  have k: "kept_on_fault ?ev = ''a''"
    by (simp add: kept_on_fault_def hasattr_no_attr event_parts_def texts_before_fault_def
        part_faults_def part_str_def)
  show ?thesis
    using h k event_fault_swallowed
      [of "''so far''" ?ev
          "Exn TypeError ''can only concatenate str (not \"NoneType\") to str''"
          "Yield (structured_event [''c'']) StopAsyncIteration"]
    by (simp add: inspect_structured)
qed

section \<open>Runner cache and session initialisation\<close>

lemma get_runner_hit: "RUNNER_CACHE s k = Some r \<Longrightarrow> get_runner k t s = (r, s)"
  by (simp add: get_runner_def)

lemma get_runner_stored:
  "RUNNER_CACHE (snd (get_runner k t s)) k = Some (fst (get_runner k t s))"
  by (simp add: get_runner_def Let_def split: option.splits)

lemma get_runner_instruction:
  "RUNNER_CACHE s k = None \<Longrightarrow>
   instruction (runner_agent (fst (get_runner k level s))) = get_system_prompt level"
  by (simp add: get_runner_def Let_def)

lemma get_runner_calls: "run_async_calls (snd (get_runner k t s)) = run_async_calls s"
  by (simp add: get_runner_def Let_def split: option.splits)

text \<open>
  Claim C4. For every key, a second call of \<^verbatim>\<open>get_runner\<close> returns the runner that the first
  call returned, whatever the two tiers are, and changes nothing; once the cache has an
  entry for the key, that entry is returned as it is for every tier.
\<close>

theorem get_runner_same_runner:
  "get_runner k t2 (snd (get_runner k t1 s)) = (fst (get_runner k t1 s), snd (get_runner k t1 s))
   \<and> (RUNNER_CACHE s k = Some r \<longrightarrow> get_runner k t s = (r, s))"
proof -
  have "RUNNER_CACHE (snd (get_runner k t1 s)) k = Some (fst (get_runner k t1 s))"
    by (rule get_runner_stored)
  then have second: "get_runner k t2 (snd (get_runner k t1 s))
      = (fst (get_runner k t1 s), snd (get_runner k t1 s))"
    by (rule get_runner_hit)
  have cached: "RUNNER_CACHE s k = Some r \<longrightarrow> get_runner k t s = (r, s)"
    by (simp add: get_runner_hit)
  show ?thesis using second cached by blast
qed

theorem get_runner_same_runner_witness:
  "RUNNER_CACHE (snd (get_runner ''session_1'' ''Beginner'' fresh_state)) ''session_1''
     = Some (fst (get_runner ''session_1'' ''Beginner'' fresh_state))
   \<and> get_runner ''session_1'' ''Expert'' (snd (get_runner ''session_1'' ''Beginner'' fresh_state))
     = get_runner ''session_1'' ''Intermediate''
         (snd (get_runner ''session_1'' ''Beginner'' fresh_state))
   \<and> instruction (runner_agent (fst (get_runner ''session_1'' ''Expert''
        (snd (get_runner ''session_1'' ''Beginner'' fresh_state)))))
     = get_system_prompt ''Beginner''"
proof -
  let ?s1 = "snd (get_runner ''session_1'' ''Beginner'' fresh_state)"
  let ?r1 = "fst (get_runner ''session_1'' ''Beginner'' fresh_state)"
  have h: "RUNNER_CACHE ?s1 ''session_1'' = Some ?r1"
    by (rule get_runner_stored)
  have built: "instruction (runner_agent ?r1) = get_system_prompt ''Beginner''"
    by (rule get_runner_instruction) (simp add: fresh_state_def)
  show ?thesis
    using h built
      get_runner_same_runner [of "''session_1''" "''Expert''" "''Beginner''" ?s1 ?r1 "''Expert''"]
      get_runner_same_runner
        [of "''session_1''" "''Expert''" "''Beginner''" ?s1 ?r1 "''Intermediate''"]
    by simp
qed

subsection \<open>The session block\<close>

lemma ensure_session_calls:
  "run_async_calls (snd (ensure_session E runner k s)) = run_async_calls s"
  by (simp add: ensure_session_def Let_def split: option.splits)





text \<open>\<^verbatim>\<open>chat\<close> in terms of the values of its turn.\<close>

lemma chat_unfold:
  "chat E u msg s =
     (case fst (turn_session E u s) of
        Some e \<Rightarrow> (Inl e, snd (turn_session E u s))
      | None \<Rightarrow>
          (aggregate_reply (turn_stream E u msg s),
           (snd (turn_session E u s))\<lparr>run_async_calls := Suc (run_async_calls s)\<rparr>))"
proof -
  define sid where "sid = ''session_'' @ user_id u"
  obtain runner s1 where g: "get_runner sid (knowledge_level u) s = (runner, s1)"
    by (cases "get_runner sid (knowledge_level u) s")
  obtain raised s2 where e: "ensure_session E runner sid s1 = (raised, s2)"
    by (cases "ensure_session E runner sid s1")
  have c1: "run_async_calls s1 = run_async_calls s"
    using get_runner_calls [of sid "knowledge_level u" s] g by simp
  have c2: "run_async_calls s2 = run_async_calls s1"
    using ensure_session_calls [of E runner sid s1] e by simp
  have lhs: "chat E u msg s =
     (case raised of
        Some x \<Rightarrow> (Inl x, s2)
      | None \<Rightarrow>
          (aggregate_reply (run_async E (run_async_calls s) (runner_ident runner) ''web_user''
             sid (turn_content E msg)),
           s2\<lparr>run_async_calls := Suc (run_async_calls s)\<rparr>))"
    unfolding chat_def Let_def sid_def [symmetric]
    by (simp add: g e c1 c2 turn_content_def split: option.splits)
  have key: "session_key u = sid"
    by (simp add: session_key_def sid_def)
  have tr: "turn_runner u s = (runner, s1)"
    unfolding turn_runner_def key by (rule g)
  have ts: "turn_session E u s = (raised, s2)"
    unfolding turn_session_def tr key by (simp add: e)
  have tstr: "turn_stream E u msg s =
      run_async E (run_async_calls s) (runner_ident runner) ''web_user'' sid (turn_content E msg)"
    unfolding turn_stream_def tr key by simp
  show ?thesis
    unfolding lhs ts tstr by (simp split: option.splits)
qed




subsection \<open>The reply of a turn\<close>

text \<open>
  Claim C8 as it is written says that whenever the generation call raises, the turn
  returns the error result. When the stream raises an exception that is not an instance
  of \<^verbatim>\<open>Exception\<close> (here the cancellation of the task, after an event with text),
  \<^verbatim>\<open>except Exception\<close> does not catch it and \<^verbatim>\<open>chat\<close> returns no reply: the exception leaves
  the handler.
\<close>

theorem cancelled_stream_gives_no_reply:
  "aggregate_reply (Yield (structured_event [''partial'']) (Raise (Exn CancelledError [])))
     = Inl (Exn CancelledError [])
   \<and> fst (chat
          \<lparr>create_session = (\<lambda>n rid sid uid app. None),
           run_async = (\<lambda>n rid uid sid m.
              Yield (structured_event [''partial'']) (Raise (Exn CancelledError []))),
           Content_init = (\<lambda>j. None)\<rparr>
          \<lparr>user_id = ''1'', username = ''ash'', knowledge_level = ''Beginner''\<rparr>
          (JStr ''hi'') fresh_state)
     = Inl (Exn CancelledError [])"
proof -
  let ?E = "\<lparr>create_session = (\<lambda>n rid sid uid app. None),
           run_async = (\<lambda>n rid uid sid m.
              Yield (structured_event [''partial'']) (Raise (Exn CancelledError []))),
           Content_init = (\<lambda>j. None)\<rparr>"
  let ?u = "\<lparr>user_id = ''1'', username = ''ash'', knowledge_level = ''Beginner''\<rparr>"
  have reply: "aggregate_reply
      (Yield (structured_event [''partial'']) (Raise (Exn CancelledError [])))
      = Inl (Exn CancelledError [])"
    by (simp add: aggregate_reply_def is_Exception_def)
  have session: "fst (turn_session ?E ?u fresh_state) = None"
    by (simp add: turn_session_def ensure_session_def Let_def split: option.splits)
  have stream: "turn_stream ?E ?u (JStr ''hi'') fresh_state
      = Yield (structured_event [''partial'']) (Raise (Exn CancelledError []))"
    by (simp add: turn_stream_def)
  show ?thesis
    using reply by (simp add: chat_unfold session stream)
qed

text \<open>
  Claim C8, amended. The reply of a turn is decided by how the stream ends. When it raises
  an instance of \<^verbatim>\<open>Exception\<close>, the reply is the single error result with \<^verbatim>\<open>str(e)\<close>,
  whatever events came before; when it raises an exception that is not an instance of
  \<^verbatim>\<open>Exception\<close>, that exception leaves the handler; when it ends, the reply is the success
  result with the aggregated text. Once the session block has returned, \<^verbatim>\<open>chat\<close> gives what
  the stream of its one generation call gives, and makes exactly one such call (no retry).
\<close>

theorem generation_error_or_aggregate:
  "aggregate_reply r =
     (case raised_by r of
        Some e \<Rightarrow> if is_Exception e then Inr (Error (exn_str e)) else Inl e
      | None \<Rightarrow> Inr (Response (aggregate_from [] (events_of r))))
   \<and> (fst (turn_session E u s) = None \<longrightarrow>
        fst (chat E u msg s) = aggregate_reply (turn_stream E u msg s)
      \<and> run_async_calls (snd (chat E u msg s)) = Suc (run_async_calls s))"
proof -
  have by_ending: "aggregate_reply r =
     (case raised_by r of
        Some e \<Rightarrow> if is_Exception e then Inr (Error (exn_str e)) else Inl e
      | None \<Rightarrow> Inr (Response (aggregate_from [] (events_of r))))"
    by (simp add: aggregate_reply_def event_loop_run split: option.splits)
  have one_call: "fst (chat E u msg s) = aggregate_reply (turn_stream E u msg s)
      \<and> run_async_calls (snd (chat E u msg s)) = Suc (run_async_calls s)"
    if "fst (turn_session E u s) = None"
    using that by (simp add: chat_unfold)
  show ?thesis using by_ending one_call by blast
qed

theorem generation_error_or_aggregate_witness:
  "fst (turn_session
          \<lparr>create_session = (\<lambda>n rid sid uid app. None),
           run_async = (\<lambda>n rid uid sid m.
              Yield (structured_event [''partial'']) (Raise (Exn OtherException ''quota exceeded''))),
           Content_init = (\<lambda>j. None)\<rparr>
          \<lparr>user_id = ''1'', username = ''ash'', knowledge_level = ''Beginner''\<rparr> fresh_state)
     = None
   \<and> fst (chat
          \<lparr>create_session = (\<lambda>n rid sid uid app. None),
           run_async = (\<lambda>n rid uid sid m.
              Yield (structured_event [''partial'']) (Raise (Exn OtherException ''quota exceeded''))),
           Content_init = (\<lambda>j. None)\<rparr>
          \<lparr>user_id = ''1'', username = ''ash'', knowledge_level = ''Beginner''\<rparr>
          (JStr ''hi'') fresh_state)
     = Inr (Error ''quota exceeded'')
   \<and> run_async_calls (snd (chat
          \<lparr>create_session = (\<lambda>n rid sid uid app. None),
           run_async = (\<lambda>n rid uid sid m.
              Yield (structured_event [''partial'']) (Raise (Exn OtherException ''quota exceeded''))),
           Content_init = (\<lambda>j. None)\<rparr>
          \<lparr>user_id = ''1'', username = ''ash'', knowledge_level = ''Beginner''\<rparr>
          (JStr ''hi'') fresh_state))
     = 1"
proof -
  let ?r = "Yield (structured_event [''partial'']) (Raise (Exn OtherException ''quota exceeded''))"
  let ?E = "\<lparr>create_session = (\<lambda>n rid sid uid app. None),
           run_async = (\<lambda>n rid uid sid m. ?r),
           Content_init = (\<lambda>j. None)\<rparr>"
  let ?u = "\<lparr>user_id = ''1'', username = ''ash'', knowledge_level = ''Beginner''\<rparr>"
  have session: "fst (turn_session ?E ?u fresh_state) = None"
    by (simp add: turn_session_def ensure_session_def Let_def split: option.splits)
  have stream: "turn_stream ?E ?u (JStr ''hi'') fresh_state = ?r"
    by (simp add: turn_stream_def)
  have zero: "run_async_calls fresh_state = 0"
    by (simp add: fresh_state_def)
  show ?thesis
    using session stream zero
      generation_error_or_aggregate [of ?r ?E ?u fresh_state "JStr ''hi''"]
    by (simp add: is_Exception_def)
qed

section \<open>System prompt\<close>

lemma prompt_other:
  "level \<noteq> ''Beginner'' \<Longrightarrow> level \<noteq> ''Expert'' \<Longrightarrow> get_system_prompt level = base_prompt"
  by (simp add: get_system_prompt_def)

lemma prompt_beginner_differs: "get_system_prompt ''Beginner'' \<noteq> base_prompt"
  by (simp add: get_system_prompt_def)

lemma User_init_level:
  assumes "User_init user_dict = Inr u"
  shows "knowledge_level u =
           (case user_dict ''knowledge_level'' of None \<Rightarrow> ''Beginner'' | Some l \<Rightarrow> l)"
  using assms by (auto simp: User_init_def split: option.splits)

lemma User_init_present:
  "user_dict ''_id'' = Some i \<Longrightarrow> user_dict ''username'' = Some n \<Longrightarrow>
   User_init user_dict =
     Inr \<lparr>user_id = i, username = n,
          knowledge_level =
            (case user_dict ''knowledge_level'' of None \<Rightarrow> ''Beginner'' | Some l \<Rightarrow> l)\<rparr>"
  by (simp add: User_init_def)

text \<open>
  Claim C9 as it is written says that a tier outside the three known ones gives the
  instruction of \<^verbatim>\<open>Beginner\<close>. It does not: the runner built for \<^verbatim>\<open>Novice\<close> has another
  instruction than the runner built for \<^verbatim>\<open>Beginner\<close>.
\<close>

theorem unknown_tier_is_not_beginner:
  "instruction (runner_agent (fst (get_runner ''session_1'' ''Novice'' fresh_state)))
     \<noteq> instruction (runner_agent (fst (get_runner ''session_1'' ''Beginner'' fresh_state)))"
proof -
  have empty: "RUNNER_CACHE fresh_state ''session_1'' = None"
    by (simp add: fresh_state_def)
  have novice: "get_system_prompt ''Novice'' = base_prompt"
    by (simp add: get_system_prompt_def)
  show ?thesis
    unfolding get_runner_instruction [OF empty] novice
    using prompt_beginner_differs by simp
qed

text \<open>
  Claim C9, amended. The tier falls back to \<^verbatim>\<open>Beginner\<close> where the profile has no
  \<^verbatim>\<open>knowledge_level\<close> key, in \<^verbatim>\<open>User.__init__\<close>. A tier that is present is passed on as it
  is: \<^verbatim>\<open>User.__init__\<close> stores the very value of the profile, and \<^verbatim>\<open>get_runner\<close> hands the
  tier it is given to \<^verbatim>\<open>get_system_prompt\<close>. For every tier other than \<^verbatim>\<open>Beginner\<close> and
  \<^verbatim>\<open>Expert\<close>, the instruction of a newly built agent is the base prompt without a suffix,
  the same as for \<^verbatim>\<open>Intermediate\<close> and not the same as for \<^verbatim>\<open>Beginner\<close>; so it is for the
  runner that the first chat turn of a user with such a stored tier builds.
\<close>

theorem tier_default_and_fallthrough:
  "(user_dict ''knowledge_level'' = None \<longrightarrow> User_init user_dict = Inr u \<longrightarrow>
      knowledge_level u = ''Beginner'')
   \<and> (user_dict ''knowledge_level'' = Some l \<longrightarrow> User_init user_dict = Inr u \<longrightarrow>
      knowledge_level u = l)
   \<and> (RUNNER_CACHE s k = None \<longrightarrow>
      instruction (runner_agent (fst (get_runner k level s))) = get_system_prompt level)
   \<and> (RUNNER_CACHE s k = None \<longrightarrow> level \<noteq> ''Beginner'' \<longrightarrow> level \<noteq> ''Expert'' \<longrightarrow>
        instruction (runner_agent (fst (get_runner k level s))) = base_prompt
      \<and> instruction (runner_agent (fst (get_runner k level s)))
          = instruction (runner_agent (fst (get_runner k ''Intermediate'' s)))
      \<and> instruction (runner_agent (fst (get_runner k level s)))
          \<noteq> instruction (runner_agent (fst (get_runner k ''Beginner'' s))))
   \<and> (user_dict ''knowledge_level'' = Some l \<longrightarrow> User_init user_dict = Inr u \<longrightarrow>
      l \<noteq> ''Beginner'' \<longrightarrow> l \<noteq> ''Expert'' \<longrightarrow> RUNNER_CACHE s (session_key u) = None \<longrightarrow>
        instruction (runner_agent (fst (turn_runner u s))) = base_prompt
      \<and> instruction (runner_agent (fst (turn_runner u s))) \<noteq> get_system_prompt ''Beginner'')"
proof -
  have unset: "user_dict ''knowledge_level'' = None \<longrightarrow> User_init user_dict = Inr u \<longrightarrow>
      knowledge_level u = ''Beginner''"
    using User_init_level [of user_dict u] by simp
  have present: "knowledge_level u = l"
    if "user_dict ''knowledge_level'' = Some l" and "User_init user_dict = Inr u"
    using User_init_level [OF that(2)] that(1) by simp
  have handed: "RUNNER_CACHE s k = None \<longrightarrow>
      instruction (runner_agent (fst (get_runner k level s))) = get_system_prompt level"
    by (simp add: get_runner_instruction)
  have inter: "get_system_prompt ''Intermediate'' = base_prompt"
    by (simp add: get_system_prompt_def)
  have other: "RUNNER_CACHE s k = None \<longrightarrow> level \<noteq> ''Beginner'' \<longrightarrow> level \<noteq> ''Expert'' \<longrightarrow>
        instruction (runner_agent (fst (get_runner k level s))) = base_prompt
      \<and> instruction (runner_agent (fst (get_runner k level s)))
          = instruction (runner_agent (fst (get_runner k ''Intermediate'' s)))
      \<and> instruction (runner_agent (fst (get_runner k level s)))
          \<noteq> instruction (runner_agent (fst (get_runner k ''Beginner'' s)))"
    using prompt_beginner_differs by (simp add: get_runner_instruction prompt_other inter)
  have turn: "instruction (runner_agent (fst (turn_runner u s))) = base_prompt
      \<and> instruction (runner_agent (fst (turn_runner u s))) \<noteq> get_system_prompt ''Beginner''"
    if "user_dict ''knowledge_level'' = Some l" and "User_init user_dict = Inr u"
      and "l \<noteq> ''Beginner''" and "l \<noteq> ''Expert''" and "RUNNER_CACHE s (session_key u) = None"
  proof -
    have "knowledge_level u = l"
      using that(1,2) by (rule present)
    then have "instruction (runner_agent (fst (turn_runner u s))) = get_system_prompt l"
      unfolding turn_runner_def using that(5) by (simp add: get_runner_instruction)
    then show ?thesis
      using that(3,4) prompt_beginner_differs by (simp add: prompt_other)
  qed
  show ?thesis using unset present handed other turn by blast
qed

theorem tier_default_and_fallthrough_witness:
  "[''_id'' \<mapsto> ''64'', ''username'' \<mapsto> ''ash''] ''knowledge_level'' = None
   \<and> User_init [''_id'' \<mapsto> ''64'', ''username'' \<mapsto> ''ash'']
       = Inr \<lparr>user_id = ''64'', username = ''ash'', knowledge_level = ''Beginner''\<rparr>
   \<and> [''_id'' \<mapsto> ''65'', ''username'' \<mapsto> ''brock'', ''knowledge_level'' \<mapsto> ''Novice'']
        ''knowledge_level'' = Some ''Novice''
   \<and> User_init [''_id'' \<mapsto> ''65'', ''username'' \<mapsto> ''brock'', ''knowledge_level'' \<mapsto> ''Novice'']
       = Inr \<lparr>user_id = ''65'', username = ''brock'', knowledge_level = ''Novice''\<rparr>
   \<and> RUNNER_CACHE fresh_state ''session_65'' = None
   \<and> ''Novice'' \<noteq> ''Beginner'' \<and> ''Novice'' \<noteq> ''Expert''
   \<and> instruction (runner_agent (fst (get_runner ''session_65'' ''Novice'' fresh_state)))
       = base_prompt
   \<and> instruction (runner_agent (fst (turn_runner
        \<lparr>user_id = ''65'', username = ''brock'', knowledge_level = ''Novice''\<rparr> fresh_state)))
       = base_prompt"
proof -
  let ?absent = "[''_id'' \<mapsto> ''64'', ''username'' \<mapsto> ''ash'']"
  let ?novice = "[''_id'' \<mapsto> ''65'', ''username'' \<mapsto> ''brock'',
                  ''knowledge_level'' \<mapsto> ''Novice'']"
  let ?ash = "\<lparr>user_id = ''64'', username = ''ash'', knowledge_level = ''Beginner''\<rparr>"
  let ?brock = "\<lparr>user_id = ''65'', username = ''brock'', knowledge_level = ''Novice''\<rparr>"
  have init_absent: "User_init ?absent = Inr ?ash"
    by (simp add: User_init_def)
  have init_novice: "User_init ?novice = Inr ?brock"
    by (simp add: User_init_def)
  have empty: "RUNNER_CACHE fresh_state ''session_65'' = None"
    by (simp add: fresh_state_def)
  have key: "session_key ?brock = ''session_65''"
    by (simp add: session_key_def)
  show ?thesis
    using init_absent init_novice empty key
      tier_default_and_fallthrough
        [of ?absent ?ash "''Novice''" fresh_state "''session_65''" "''Novice''"]
      tier_default_and_fallthrough
        [of ?novice ?brock "''Novice''" fresh_state "''session_65''" "''Novice''"]
    by simp
qed

section \<open>Tool functions: normalisation and failure\<close>

lemma normalize_gen_9_ou: "normalize_format '' Gen 9 OU '' = ''gen9ou''"
  by code_simp


lemma usage_url_gen9ou: "usage_url ''gen9ou'' = gen9ou_stats_url"
  by (simp add: usage_url_def gen9ou_stats_url_def)


lemma raise_for_status_iff:
  "raise_for_status response \<noteq> None \<longleftrightarrow> is_error_status (status_code response)"
  by (auto simp: raise_for_status_def is_error_status_def)

lemma usage_raises:
  assumes "outbound_raises L url"
  shows "isl (usage_try L url)"
proof (cases "requests_get L url")
  case (Inl e)
  then show ?thesis by (simp add: usage_try_def)
next
  case (Inr response)
  show ?thesis
  proof (cases "raise_for_status response")
    case (Some e)
    with Inr show ?thesis by (simp add: usage_try_def)
  next
    case None
    then have "\<not> is_error_status (status_code response)"
      using raise_for_status_iff [of response] by simp
    with assms Inr have "isl (response_json response)"
      by (simp add: outbound_raises_def)
    with Inr None show ?thesis
      by (cases "response_json response") (simp_all add: usage_try_def)
  qed
qed

lemma teams_raises:
  assumes "outbound_raises L url"
  shows "isl (teams_try L url)"
proof (cases "requests_get L url")
  case (Inl e)
  then show ?thesis by (simp add: teams_try_def)
next
  case (Inr response)
  show ?thesis
  proof (cases "raise_for_status response")
    case (Some e)
    with Inr show ?thesis by (simp add: teams_try_def)
  next
    case None
    then have "\<not> is_error_status (status_code response)"
      using raise_for_status_iff [of response] by simp
    with assms Inr have "isl (response_json response)"
      by (simp add: outbound_raises_def)
    with Inr None show ?thesis
      by (cases "response_json response") (simp_all add: teams_try_def)
  qed
qed

lemma get_usage_stats_not_found:
  "isl (usage_try L (usage_url (usage_clean_format fmt))) \<Longrightarrow>
   get_usage_stats L fmt = Inr (''Stats not found for '' @ usage_clean_format fmt @ ''.'')"
  by (auto simp: get_usage_stats_def Let_def split: sum.splits)

lemma get_sample_teams_not_found:
  "isl (teams_try L (teams_url (normalize_format fmt))) \<Longrightarrow>
   get_sample_teams L fmt = Inr (''No samples for '' @ normalize_format fmt @ ''.'')"
  by (auto simp: get_sample_teams_def Let_def split: sum.splits)

lemma get_usage_stats_returns: "\<exists>s. get_usage_stats L fmt = Inr s"
  by (simp add: get_usage_stats_def Let_def split: sum.splits)

lemma get_sample_teams_returns: "\<exists>s. get_sample_teams L fmt = Inr s"
  by (simp add: get_sample_teams_def Let_def split: sum.splits)


text \<open>What the usage tool makes of a response that passes the status check and parses.\<close>

lemma get_usage_stats_found:
  assumes "requests_get L (usage_url (usage_clean_format fmt)) = Inr response"
    and "\<not> is_error_status (status_code response)"
    and "response_json response = Inr (JObj items)"
  shows "get_usage_stats L fmt =
           Inr (''Top 20 Usage: '' @ join '', '' (take 20 (map fst items)))"
proof -
  have "raise_for_status response = None"
    using assms(2) raise_for_status_iff [of response] by simp
  then show ?thesis
    using assms(1,3) by (simp add: get_usage_stats_def usage_try_def)
qed

lemma get_sample_teams_found:
  assumes "requests_get L (teams_url (normalize_format fmt)) = Inr response"
    and "\<not> is_error_status (status_code response)"
    and "response_json response = Inr (JArr teams)"
  shows "get_sample_teams L fmt = Inr (''Sample Teams: '' @ json_dumps L (JArr (take 2 teams)))"
proof -
  have "raise_for_status response = None"
    using assms(2) raise_for_status_iff [of response] by simp
  then show ?thesis
    using assms(1,3) by (simp add: get_sample_teams_def teams_try_def)
qed


text \<open>
  Claim C6. Both tools lower the case, strip the ends and remove the spaces, and both make
  \<^verbatim>\<open>gen9ou\<close> of \<^verbatim>\<open>" Gen 9 OU "\<close>. The special case of the canonical identifier is in
  \<^verbatim>\<open>get_usage_stats\<close> only: on \<^verbatim>\<open>Gen 9 OU Singles\<close>, with the data host unreachable,
  \<^verbatim>\<open>get_usage_stats\<close> reports \<^verbatim>\<open>gen9ou\<close> and \<^verbatim>\<open>get_sample_teams\<close> reports \<^verbatim>\<open>gen9ousingles\<close>.
\<close>

theorem sample_teams_without_alias:
  "get_usage_stats
     \<lparr>requests_get = (\<lambda>url. Inl (Exn OtherException ''connection refused'')),
      json_dumps = (\<lambda>j. [])\<rparr> ''Gen 9 OU Singles''
     = Inr ''Stats not found for gen9ou.''
   \<and> get_sample_teams
     \<lparr>requests_get = (\<lambda>url. Inl (Exn OtherException ''connection refused'')),
      json_dumps = (\<lambda>j. [])\<rparr> ''Gen 9 OU Singles''
     = Inr ''No samples for gen9ousingles.''
   \<and> get_usage_stats
     \<lparr>requests_get = (\<lambda>url. Inl (Exn OtherException ''connection refused'')),
      json_dumps = (\<lambda>j. [])\<rparr> '' Gen 9 OU ''
     = Inr ''Stats not found for gen9ou.''
   \<and> get_sample_teams
     \<lparr>requests_get = (\<lambda>url. Inl (Exn OtherException ''connection refused'')),
      json_dumps = (\<lambda>j. [])\<rparr> '' Gen 9 OU ''
     = Inr ''No samples for gen9ou.''"
proof -
  have usage_singles: "usage_clean_format ''Gen 9 OU Singles'' = ''gen9ou''"
    by code_simp
  have teams_singles: "normalize_format ''Gen 9 OU Singles'' = ''gen9ousingles''"
    by code_simp
  have usage_ou: "usage_clean_format '' Gen 9 OU '' = ''gen9ou''"
    by code_simp
  show ?thesis
    by (simp add: get_usage_stats_def get_sample_teams_def usage_try_def teams_try_def
        usage_singles teams_singles usage_ou normalize_gen_9_ou)
qed

text \<open>
  Claim C7 as it is written counts every status outside 200 to 299 as a failure that gives
  the not-found string. The tools leave the status to \<^verbatim>\<open>raise_for_status\<close>, which raises
  from 400 on: a response with status 304 and a JSON body is a failed outbound call in the
  words of the claim, and both tools return their success string for it.
\<close>

theorem not_modified_is_not_a_failure:
  "outbound_fails
     \<lparr>requests_get = (\<lambda>url. Inr \<lparr>status_code = 304,
                                  response_json = Inr (JObj [(''Great Tusk'', JNum 1)])\<rparr>),
      json_dumps = (\<lambda>j. ''[]'')\<rparr> (usage_url (usage_clean_format ''gen9uu''))
   \<and> get_usage_stats
     \<lparr>requests_get = (\<lambda>url. Inr \<lparr>status_code = 304,
                                  response_json = Inr (JObj [(''Great Tusk'', JNum 1)])\<rparr>),
      json_dumps = (\<lambda>j. ''[]'')\<rparr> ''gen9uu''
     = Inr ''Top 20 Usage: Great Tusk''
   \<and> outbound_fails
     \<lparr>requests_get = (\<lambda>url. Inr \<lparr>status_code = 304, response_json = Inr (JArr [])\<rparr>),
      json_dumps = (\<lambda>j. ''[]'')\<rparr> (teams_url (normalize_format ''gen9uu''))
   \<and> get_sample_teams
     \<lparr>requests_get = (\<lambda>url. Inr \<lparr>status_code = 304, response_json = Inr (JArr [])\<rparr>),
      json_dumps = (\<lambda>j. ''[]'')\<rparr> ''gen9uu''
     = Inr ''Sample Teams: []''"
proof -
  have usage: "usage_clean_format ''gen9uu'' = ''gen9uu''"
    by code_simp
  have teams: "normalize_format ''gen9uu'' = ''gen9uu''"
    by code_simp
  show ?thesis
    by (simp add: outbound_fails_def is_2xx_def get_usage_stats_def get_sample_teams_def
        usage_try_def teams_try_def raise_for_status_def usage teams)
qed

text \<open>
  Claim C7, amended. Whenever the outbound call of a tool raises (the request raises, the
  status is one from 400 to 599, for which \<^verbatim>\<open>raise_for_status\<close> raises, or the body is not
  JSON), the tool returns its not-found string for the identifier; and a tool returns a
  string in every case, it never raises. A response with any other status is used like a
  successful one: from a JSON object the usage tool returns its summary, from a JSON list
  the sample tool returns its first two entries.
\<close>

theorem tools_not_found_on_failure:
  "(outbound_raises L (usage_url (usage_clean_format fmt)) \<longrightarrow>
      get_usage_stats L fmt = Inr (''Stats not found for '' @ usage_clean_format fmt @ ''.''))
   \<and> (outbound_raises L (teams_url (normalize_format fmt)) \<longrightarrow>
      get_sample_teams L fmt = Inr (''No samples for '' @ normalize_format fmt @ ''.''))
   \<and> (\<exists>s. get_usage_stats L fmt = Inr s)
   \<and> (\<exists>s. get_sample_teams L fmt = Inr s)
   \<and> (requests_get L (usage_url (usage_clean_format fmt)) = Inr response \<longrightarrow>
        \<not> is_error_status (status_code response) \<longrightarrow>
        response_json response = Inr (JObj items) \<longrightarrow>
        get_usage_stats L fmt = Inr (''Top 20 Usage: '' @ join '', '' (take 20 (map fst items))))
   \<and> (requests_get L (teams_url (normalize_format fmt)) = Inr response \<longrightarrow>
        \<not> is_error_status (status_code response) \<longrightarrow>
        response_json response = Inr (JArr teams) \<longrightarrow>
        get_sample_teams L fmt = Inr (''Sample Teams: '' @ json_dumps L (JArr (take 2 teams))))"
proof -
  have usage: "outbound_raises L (usage_url (usage_clean_format fmt)) \<longrightarrow>
      get_usage_stats L fmt = Inr (''Stats not found for '' @ usage_clean_format fmt @ ''.'')"
    using get_usage_stats_not_found [OF usage_raises] by blast
  have sample: "outbound_raises L (teams_url (normalize_format fmt)) \<longrightarrow>
      get_sample_teams L fmt = Inr (''No samples for '' @ normalize_format fmt @ ''.'')"
    using get_sample_teams_not_found [OF teams_raises] by blast
  have usage_ok: "requests_get L (usage_url (usage_clean_format fmt)) = Inr response \<longrightarrow>
        \<not> is_error_status (status_code response) \<longrightarrow>
        response_json response = Inr (JObj items) \<longrightarrow>
        get_usage_stats L fmt = Inr (''Top 20 Usage: '' @ join '', '' (take 20 (map fst items)))"
    using get_usage_stats_found [of L fmt response items] by blast
  have sample_ok: "requests_get L (teams_url (normalize_format fmt)) = Inr response \<longrightarrow>
        \<not> is_error_status (status_code response) \<longrightarrow>
        response_json response = Inr (JArr teams) \<longrightarrow>
        get_sample_teams L fmt = Inr (''Sample Teams: '' @ json_dumps L (JArr (take 2 teams)))"
    using get_sample_teams_found [of L fmt response teams] by blast
  show ?thesis
    using usage sample usage_ok sample_ok get_usage_stats_returns [of L fmt]
      get_sample_teams_returns [of L fmt]
    by blast
qed

theorem tools_not_found_on_failure_witness:
  "outbound_raises
     \<lparr>requests_get = (\<lambda>url. Inr \<lparr>status_code = 404, response_json = Inr (JObj [])\<rparr>),
      json_dumps = (\<lambda>j. [])\<rparr> (usage_url (usage_clean_format ''gen9uu''))
   \<and> get_usage_stats
     \<lparr>requests_get = (\<lambda>url. Inr \<lparr>status_code = 404, response_json = Inr (JObj [])\<rparr>),
      json_dumps = (\<lambda>j. [])\<rparr> ''gen9uu''
     = Inr ''Stats not found for gen9uu.''
   \<and> outbound_raises
     \<lparr>requests_get = (\<lambda>url. Inr \<lparr>status_code = 200,
                                  response_json = Inl (Exn OtherException ''Expecting value'')\<rparr>),
      json_dumps = (\<lambda>j. [])\<rparr> (teams_url (normalize_format ''gen9uu''))
   \<and> get_sample_teams
     \<lparr>requests_get = (\<lambda>url. Inr \<lparr>status_code = 200,
                                  response_json = Inl (Exn OtherException ''Expecting value'')\<rparr>),
      json_dumps = (\<lambda>j. [])\<rparr> ''gen9uu''
     = Inr ''No samples for gen9uu.''
   \<and> get_sample_teams
     \<lparr>requests_get = (\<lambda>url. Inr \<lparr>status_code = 301,
          response_json = Inr (JArr [JStr ''a'', JStr ''b'', JStr ''c''])\<rparr>),
      json_dumps = (\<lambda>j. case j of JArr xs \<Rightarrow> replicate (length xs) CHR ''*'' | _ \<Rightarrow> [])\<rparr>
     ''gen9uu''
     = Inr ''Sample Teams: **''"
proof -
  let ?moved = "\<lparr>status_code = 301,
          response_json = Inr (JArr [JStr ''a'', JStr ''b'', JStr ''c''])\<rparr>"
  let ?L301 = "\<lparr>requests_get = (\<lambda>url. Inr ?moved),
      json_dumps = (\<lambda>j. case j of JArr xs \<Rightarrow> replicate (length xs) CHR ''*'' | _ \<Rightarrow> [])\<rparr>"
  have got: "requests_get ?L301 (teams_url (normalize_format ''gen9uu'')) = Inr ?moved"
    by simp
  have ok: "\<not> is_error_status (status_code ?moved)"
    by (simp add: is_error_status_def)
  have body: "response_json ?moved = Inr (JArr [JStr ''a'', JStr ''b'', JStr ''c''])"
    by simp
  have moved: "get_sample_teams ?L301 ''gen9uu''
      = Inr (''Sample Teams: '' @ json_dumps ?L301 (JArr (take 2 [JStr ''a'', JStr ''b'', JStr ''c''])))"
    using got ok body
      tools_not_found_on_failure
        [of ?L301 "''gen9uu''" ?moved "[]" "[JStr ''a'', JStr ''b'', JStr ''c'']"]
    by blast
  let ?L404 = "\<lparr>requests_get =
        (\<lambda>url. Inr \<lparr>status_code = 404, response_json = Inr (JObj [])\<rparr>),
      json_dumps = (\<lambda>j. [])\<rparr>"
  let ?Lbad = "\<lparr>requests_get =
        (\<lambda>url. Inr \<lparr>status_code = 200,
                     response_json = Inl (Exn OtherException ''Expecting value'')\<rparr>),
      json_dumps = (\<lambda>j. [])\<rparr>"
  have usage: "usage_clean_format ''gen9uu'' = ''gen9uu''"
    by code_simp
  have teams: "normalize_format ''gen9uu'' = ''gen9uu''"
    by code_simp
  have f1: "outbound_raises ?L404 (usage_url (usage_clean_format ''gen9uu''))"
    by (simp add: outbound_raises_def is_error_status_def)
  have f2: "outbound_raises ?Lbad (teams_url (normalize_format ''gen9uu''))"
    by (simp add: outbound_raises_def is_error_status_def)
  have dumped: "get_sample_teams ?L301 ''gen9uu'' = Inr ''Sample Teams: **''"
    using moved by simp
  show ?thesis
    using f1 f2 usage teams dumped
      tools_not_found_on_failure [of ?L404 "''gen9uu''"]
      tools_not_found_on_failure [of ?Lbad "''gen9uu''"]
    by simp
qed



end
